theory Spec2Isabelle
  imports Main "HOL-Library.AList" "HOL-Library.Char_ord" "HOL-Library.List_Lexorder"
begin

section \<open>WormDB: a JSON file behind a document mapper\<close>

text \<open>
  A shallow embedding of \<^verbatim>\<open>src/wormdb.py\<close>. The module keeps two globals,
  \<^verbatim>\<open>DB_PATH\<close> and \<^verbatim>\<open>CACHE\<close>; a metaclass \<^verbatim>\<open>DocumentMeta\<close> that turns a class
  body into a schema; the descriptor \<^verbatim>\<open>Field\<close>; and the methods of \<^verbatim>\<open>Document\<close>.

  Python dictionaries are objects: two names may denote one dictionary, and a write through
  one name is seen through the other. The records of a collection and the \<^verbatim>\<open>_data\<close>
  dictionary of a class are therefore kept in an explicit object store (\<open>heap\<close>), and the
  program state holds references into it.

  Scope of the model.
  \<^item> Field values are the JSON scalars \<^verbatim>\<open>null\<close>, booleans, integers and strings. Floats and
    nested lists and mappings are left out.
  \<^item> The JSON codec is outside the module: \<^verbatim>\<open>json.load\<close> and \<^verbatim>\<open>json.dump\<close> are the
    parameters \<open>loads\<close> and \<open>dumps\<close>. \<open>loads\<close> returns the parsed content or the exception
    it raises (\<^verbatim>\<open>JSONDecodeError\<close>, or another one such as \<^verbatim>\<open>UnicodeDecodeError\<close>). A
    parsed file has the documented shape, a mapping from collection name to a list of records.
  \<^item> A class body is the list of its \<^verbatim>\<open>Field\<close> attributes, each attribute holding a
    \<^verbatim>\<open>Field\<close> object of its own; schemas derive directly from \<^verbatim>\<open>Document\<close>, and no
    field or instance attribute is named like an attribute that \<^verbatim>\<open>Document\<close> itself
    provides. Attributes
    assigned to an instance under a name that is no field live in the \<^verbatim>\<open>__dict__\<close> of the
    instance (\<open>inst_dict\<close>). The early
    return of \<^verbatim>\<open>DocumentMeta.__new__\<close> for \<^verbatim>\<open>Document\<close> itself (the class body that
    sets \<^verbatim>\<open>meta_class\<close>) is not a schema and is left out.
\<close>

subsection \<open>Values\<close>

datatype pyval = PNone | PBool bool | PInt int | PStr string

datatype error =
    KeyError | TypeError | ValueError | IndexError | AttributeError | OSError
  | JSONDecodeError | UnicodeDecodeError | MultiplePrimaryKey | DocumentAlreadyExists | DocumentDoesNotExist

text \<open>Booleans are integers in Python: \<^verbatim>\<open>True == 1\<close>, \<^verbatim>\<open>True + 1 == 2\<close>.\<close>

fun num_of :: "pyval \<Rightarrow> int option" where
  "num_of (PInt i) = Some i"
| "num_of (PBool b) = Some (if b then 1 else 0)"
| "num_of PNone = None"
| "num_of (PStr s) = None"

text \<open>\<^verbatim>\<open>a == b\<close> on scalars; it never raises.\<close>

definition py_eq :: "pyval \<Rightarrow> pyval \<Rightarrow> bool" where
  "py_eq a b =
     (case num_of a of
        Some x \<Rightarrow> (case num_of b of Some y \<Rightarrow> x = y | None \<Rightarrow> False)
      | None \<Rightarrow> (case num_of b of Some y \<Rightarrow> False | None \<Rightarrow> a = b))"

text \<open>\<^verbatim>\<open>a > b\<close>: numbers with numbers, strings with strings, \<^verbatim>\<open>TypeError\<close> otherwise.\<close>

definition py_gt :: "pyval \<Rightarrow> pyval \<Rightarrow> error + bool" where
  "py_gt a b =
     (case num_of a of
        Some x \<Rightarrow> (case num_of b of Some y \<Rightarrow> Inr (y < x) | None \<Rightarrow> Inl TypeError)
      | None \<Rightarrow>
          (case a of
             PStr s \<Rightarrow> (case b of PStr t \<Rightarrow> Inr (t < s) | _ \<Rightarrow> Inl TypeError)
           | _ \<Rightarrow> Inl TypeError))"

text \<open>\<^verbatim>\<open>max(seq)\<close>: the first item is the candidate, a later item replaces it when it is
  greater; \<^verbatim>\<open>ValueError\<close> on the empty sequence.\<close>

fun max_loop :: "pyval \<Rightarrow> pyval list \<Rightarrow> error + pyval" where
  "max_loop m [] = Inr m"
| "max_loop m (x # xs) =
     (case py_gt x m of
        Inl e \<Rightarrow> Inl e
      | Inr b \<Rightarrow> max_loop (if b then x else m) xs)"

definition py_max :: "pyval list \<Rightarrow> error + pyval" where
  "py_max seq = (case seq of [] \<Rightarrow> Inl ValueError | x # xs \<Rightarrow> max_loop x xs)"

text \<open>\<^verbatim>\<open>a + b\<close>.\<close>

definition py_add :: "pyval \<Rightarrow> pyval \<Rightarrow> error + pyval" where
  "py_add a b =
     (case num_of a of
        Some x \<Rightarrow> (case num_of b of Some y \<Rightarrow> Inr (PInt (x + y)) | None \<Rightarrow> Inl TypeError)
      | None \<Rightarrow>
          (case a of
             PStr s \<Rightarrow> (case b of PStr t \<Rightarrow> Inr (PStr (s @ t)) | _ \<Rightarrow> Inl TypeError)
           | _ \<Rightarrow> Inl TypeError))"

subsection \<open>Dictionaries\<close>

text \<open>A \<^verbatim>\<open>dict\<close> with string keys, in insertion order. \<^verbatim>\<open>d[k] = v\<close> replaces the value
  where the key is, or appends the pair: \<open>AList.update\<close>.\<close>

type_synonym pydict = "(string \<times> pyval) list"

definition dict_get :: "pydict \<Rightarrow> string \<Rightarrow> pyval" where
  "dict_get d k = (case map_of d k of None \<Rightarrow> PNone | Some v \<Rightarrow> v)"

definition dict_setitem :: "pydict \<Rightarrow> string \<Rightarrow> pyval \<Rightarrow> pydict" where
  "dict_setitem d k v = AList.update k v d"

text \<open>\<^verbatim>\<open>for key, value in other.items(): d[key] = value\<close>, which is also \<^verbatim>\<open>d.update(other)\<close>.\<close>

fun dict_update :: "pydict \<Rightarrow> pydict \<Rightarrow> pydict" where
  "dict_update d [] = d"
| "dict_update d ((k, v) # other) = dict_update (dict_setitem d k v) other"

text \<open>\<^verbatim>\<open>a == b\<close> on dictionaries: as many keys, and every key of \<open>a\<close> in \<open>b\<close> with an equal
  value.\<close>

definition dict_eq :: "pydict \<Rightarrow> pydict \<Rightarrow> bool" where
  "dict_eq a b =
     (length a = length b \<and>
      list_all (\<lambda>(k, v). case map_of b k of None \<Rightarrow> False | Some w \<Rightarrow> py_eq v w) a)"

subsection \<open>The program state\<close>

type_synonym ref = nat

text \<open>
  \<open>DB_PATH\<close> and \<open>CACHE\<close> are the module's globals. \<open>CACHE\<close> maps a collection name to a
  list of references to record dictionaries. \<open>heap\<close> is the object store of dictionaries,
  \<open>next_ref\<close> the next unused reference, \<open>next_oid\<close> the identity of the next instance
  object, \<open>inst_dict\<close> the \<^verbatim>\<open>__dict__\<close> of every instance. \<open>files\<close> is the file system, \<open>unwritable\<close> the paths that cannot be opened for
  writing.
\<close>

record state =
  DB_PATH :: string
  CACHE :: "(string \<times> ref list) list"
  heap :: "ref \<Rightarrow> pydict"
  next_ref :: ref
  next_oid :: nat
  inst_dict :: "nat \<Rightarrow> pydict"
  files :: "string \<rightharpoonup> string"
  unwritable :: "string set"

text \<open>The module as imported: \<^verbatim>\<open>DB_PATH = ""\<close>, \<^verbatim>\<open>CACHE = {}\<close>.\<close>

definition module_state :: "(string \<rightharpoonup> string) \<Rightarrow> state" where
  "module_state fs =
     \<lparr>DB_PATH = [], CACHE = [], heap = (\<lambda>r. []), next_ref = 0, next_oid = 0,
      inst_dict = (\<lambda>i. []), files = fs, unwritable = {}\<rparr>"

text \<open>What \<^verbatim>\<open>json.dump\<close> sees of \<open>CACHE\<close>: every reference replaced by the dictionary
  behind it.\<close>

definition snapshot :: "state \<Rightarrow> (string \<times> pydict list) list" where
  "snapshot s = map (\<lambda>(n, refs). (n, map (heap s) refs)) (CACHE s)"

text \<open>A new dictionary object.\<close>

definition new_dict :: "pydict \<Rightarrow> state \<Rightarrow> ref \<times> state" where
  "new_dict d s = (next_ref s, s\<lparr>heap := (heap s)(next_ref s := d), next_ref := Suc (next_ref s)\<rparr>)"

subsection \<open>WormDB\<close>

text \<open>The result of \<^verbatim>\<open>json.load\<close> is made of new objects.\<close>

fun new_records :: "pydict list \<Rightarrow> state \<Rightarrow> ref list \<times> state" where
  "new_records [] s = ([], s)"
| "new_records (d # ds) s =
     (case new_dict d s of (r, s1) \<Rightarrow>
        (case new_records ds s1 of (rs, s2) \<Rightarrow> (r # rs, s2)))"

fun new_collections :: "(string \<times> pydict list) list \<Rightarrow> state \<Rightarrow> (string \<times> ref list) list \<times> state" where
  "new_collections [] s = ([], s)"
| "new_collections ((n, ds) # rest) s =
     (case new_records ds s of (rs, s1) \<Rightarrow>
        (case new_collections rest s1 of (cs, s2) \<Rightarrow> ((n, rs) # cs, s2)))"

text \<open>
  \<^verbatim>\<open>WormDB.read\<close>. \<open>loads\<close> is \<^verbatim>\<open>json.load\<close> on the text of the file. The method
  catches \<^verbatim>\<open>JSONDecodeError\<close> and nothing else. Opening a file that is not there raises
  \<^verbatim>\<open>FileNotFoundError\<close>, an \<^verbatim>\<open>OSError\<close>.
\<close>

definition WormDB_read ::
  "(string \<Rightarrow> error + (string \<times> pydict list) list) \<Rightarrow> state \<Rightarrow> (error + unit) \<times> state" where
  "WormDB_read loads s =
     (case files s (DB_PATH s) of
        None \<Rightarrow> (Inl OSError, s)
      | Some content \<Rightarrow>
          (case loads content of
             Inr parsed \<Rightarrow>
               (case new_collections parsed s of (c, s1) \<Rightarrow> (Inr (), s1\<lparr>CACHE := c\<rparr>))
           | Inl e \<Rightarrow>
               (if e = JSONDecodeError then
                  (if length content = 0 then (Inr (), s\<lparr>CACHE := []\<rparr>)
                   else (Inl JSONDecodeError, s))
                else (Inl e, s))))"

text \<open>\<^verbatim>\<open>WormDB.__init__\<close>.\<close>

definition WormDB_init ::
  "(string \<Rightarrow> error + (string \<times> pydict list) list) \<Rightarrow> string \<Rightarrow> state \<Rightarrow> (error + unit) \<times> state" where
  "WormDB_init loads db_path s =
     (let s1 = s\<lparr>DB_PATH := db_path\<rparr>
      in if files s1 (DB_PATH s1) \<noteq> None then WormDB_read loads s1 else (Inr (), s1))"

text \<open>\<^verbatim>\<open>WormDB.write\<close>. \<open>dumps\<close> is \<^verbatim>\<open>json.dump\<close>. \<^verbatim>\<open>open("", "w")\<close> raises
  \<^verbatim>\<open>FileNotFoundError\<close>.\<close>

definition WormDB_write ::
  "((string \<times> pydict list) list \<Rightarrow> string) \<Rightarrow> state \<Rightarrow> (error + unit) \<times> state" where
  "WormDB_write dumps s =
     (if DB_PATH s = [] \<or> DB_PATH s \<in> unwritable s then (Inl OSError, s)
      else (Inr (), s\<lparr>files := (files s)(DB_PATH s \<mapsto> dumps (snapshot s))\<rparr>))"

subsection \<open>Field\<close>

record Field =
  name :: "string option"
  primary_key :: bool
  default_value :: pyval

text \<open>\<^verbatim>\<open>Field.__set_name__\<close>.\<close>

definition Field_set_name :: "Field \<Rightarrow> string \<Rightarrow> Field" where
  "Field_set_name f key = (if name f = None then f\<lparr>name := Some key\<rparr> else f)"

text \<open>
  \<^verbatim>\<open>type.__new__\<close> calls \<^verbatim>\<open>__set_name__(owner, key)\<close> on every attribute of the new class.
  From then on the descriptor stored under \<open>key\<close> carries this name.
\<close>

definition Field_name :: "string \<Rightarrow> Field \<Rightarrow> string" where
  "Field_name key f = (case name (Field_set_name f key) of Some n \<Rightarrow> n | None \<Rightarrow> key)"

subsection \<open>DocumentMeta\<close>

text \<open>
  A class made by the metaclass. \<open>meta_fields\<close> and \<open>meta_id_field\<close> are the entries of
  \<^verbatim>\<open>_meta\<close>; \<open>cls_data\<close> is the class attribute \<^verbatim>\<open>_data\<close>, a reference to one dictionary
  made when the class is made; \<open>cls_attrs\<close> are the \<^verbatim>\<open>Field\<close> attributes of the class.
\<close>

record schema =
  cls_name :: string
  meta_fields :: "(string \<times> Field) list"
  meta_id_field :: string
  cls_data :: ref
  cls_attrs :: "(string \<times> Field) list"

text \<open>\<^verbatim>\<open>DocumentMeta._next_id\<close>. The list comprehension reads \<^verbatim>\<open>instance["id"]\<close> of every
  record before \<^verbatim>\<open>max\<close> runs; only \<^verbatim>\<open>KeyError\<close> is caught.\<close>

fun id_seq :: "state \<Rightarrow> ref list \<Rightarrow> error + pyval list" where
  "id_seq s [] = Inr []"
| "id_seq s (r # rs) =
     (case map_of (heap s r) ''id'' of
        None \<Rightarrow> Inl KeyError
      | Some v \<Rightarrow> (case id_seq s rs of Inl e \<Rightarrow> Inl e | Inr vs \<Rightarrow> Inr (v # vs)))"

definition next_id :: "state \<Rightarrow> string \<Rightarrow> error + pyval" where
  "next_id s cname =
     (case map_of (CACHE s) cname of
        None \<Rightarrow> Inr (PInt 1)
      | Some refs \<Rightarrow>
          (case id_seq s refs of
             Inl e \<Rightarrow> (if e = KeyError then Inr (PInt 1) else Inl e)
           | Inr seq \<Rightarrow>
               (if seq \<noteq> [] then
                  (case py_max seq of
                     Inl e \<Rightarrow> Inl e
                   | Inr last_id \<Rightarrow> py_add last_id (PInt 1))
                else Inr (PInt 1))))"

text \<open>
  The loop of \<^verbatim>\<open>DocumentMeta.__new__\<close> over the attributes that are fields. It runs before
  \<^verbatim>\<open>type.__new__\<close>, so \<^verbatim>\<open>value.name\<close> is the name as declared. The accumulator is
  \<^verbatim>\<open>_meta\<close>: the fields so far and \<^verbatim>\<open>id_field\<close>.
\<close>

fun scan_attrs ::
  "(string \<times> Field) list \<Rightarrow> (string \<times> Field) list \<times> string option
     \<Rightarrow> error + (string \<times> Field) list \<times> string option" where
  "scan_attrs [] m = Inr m"
| "scan_attrs ((key, v) # rest) (field_list, id_field) =
     (if primary_key v then
        (if id_field = None then scan_attrs rest (field_list @ [(key, v)], name v)
         else Inl MultiplePrimaryKey)
      else scan_attrs rest (field_list @ [(key, v)], id_field))"

text \<open>
  \<^verbatim>\<open>super().__new__(mcs, name, bases, attrs)\<close>: \<^verbatim>\<open>type.__new__\<close> calls
  \<^verbatim>\<open>__set_name__(owner, key)\<close> on every attribute of the namespace. The entries of
  \<^verbatim>\<open>_meta["fields"]\<close> hold the same \<^verbatim>\<open>Field\<close> objects and are named with them; an entry
  whose attribute has been replaced since (a declared attribute \<^verbatim>\<open>id\<close>, when the id field is
  generated) is an object of its own by then and stays as it is.
\<close>

definition type_new :: "schema \<Rightarrow> schema" where
  "type_new c =
     c\<lparr>meta_fields :=
         map (\<lambda>(key, f). (key, if map_of (cls_attrs c) key = Some f then Field_set_name f key else f))
           (meta_fields c),
       cls_attrs := map (\<lambda>(key, f). (key, Field_set_name f key)) (cls_attrs c)\<rparr>"

text \<open>
  \<^verbatim>\<open>DocumentMeta.__new__\<close> for a subclass of \<^verbatim>\<open>Document\<close> named \<open>cname\<close> with the field
  attributes \<open>attrs\<close>. An exception leaves no class and nothing reachable behind.
\<close>

definition DocumentMeta_new :: "string \<Rightarrow> (string \<times> Field) list \<Rightarrow> state \<Rightarrow> error + schema \<times> state" where
  "DocumentMeta_new cname attrs s =
     (case new_dict [] s of (data, s1) \<Rightarrow>
        (case scan_attrs attrs ([], None) of
           Inl e \<Rightarrow> Inl e
         | Inr (field_list, id_field) \<Rightarrow>
             (case id_field of
                Some pk \<Rightarrow>
                  Inr (type_new \<lparr>cls_name = cname, meta_fields = field_list, meta_id_field = pk,
                                 cls_data = data, cls_attrs = attrs\<rparr>, s1)
              | None \<Rightarrow>
                  (let field_name = ''id'';
                       id_field = \<lparr>name = Some field_name, primary_key = True, default_value = PNone\<rparr>
                   in case next_id s1 cname of
                        Inl e \<Rightarrow> Inl e
                      | Inr v \<Rightarrow>
                          Inr (type_new
                                 \<lparr>cls_name = cname,
                                  meta_fields = (field_name, id_field) # field_list,
                                  meta_id_field = field_name,
                                  cls_data = data,
                                  cls_attrs = AList.update field_name id_field attrs\<rparr>,
                               s1\<lparr>heap := (heap s1)(data := dict_setitem (heap s1 data) field_name v)\<rparr>)))))"

subsection \<open>Document\<close>

text \<open>
  An instance is an object with an identity and a class; its \<^verbatim>\<open>__dict__\<close> is
  \<open>inst_dict\<close> at its identity. \<^verbatim>\<open>Document\<close> has no \<^verbatim>\<open>__init__\<close>, and no method stores
  an attribute in an instance: \<^verbatim>\<open>getattr(instance, "_data")\<close> finds the attribute
  \<^verbatim>\<open>_data\<close> of the class.
\<close>

record document =
  oid :: nat
  inst_cls :: schema

text \<open>\<^verbatim>\<open>cls()\<close>.\<close>

definition Document_call :: "schema \<Rightarrow> state \<Rightarrow> document \<times> state" where
  "Document_call cls s =
     (\<lparr>oid = next_oid s, inst_cls = cls\<rparr>,
      s\<lparr>next_oid := Suc (next_oid s), inst_dict := (inst_dict s)(next_oid s := [])\<rparr>)"

text \<open>\<^verbatim>\<open>getattr(instance, "_data")\<close>.\<close>

definition inst_data :: "document \<Rightarrow> ref" where
  "inst_data i = cls_data (inst_cls i)"

text \<open>\<^verbatim>\<open>Field.__get__\<close> and \<^verbatim>\<open>Field.__set__\<close> of the descriptor stored under \<open>key\<close>.\<close>

definition Field_get :: "string \<Rightarrow> Field \<Rightarrow> document \<Rightarrow> state \<Rightarrow> pyval" where
  "Field_get key f i s = dict_get (heap s (inst_data i)) (Field_name key f)"

definition Field_set :: "string \<Rightarrow> Field \<Rightarrow> document \<Rightarrow> pyval \<Rightarrow> state \<Rightarrow> state" where
  "Field_set key f i v s =
     (let v1 = (if v = PNone \<and> default_value f \<noteq> PNone then default_value f else v)
      in s\<lparr>heap := (heap s)(inst_data i := dict_setitem (heap s (inst_data i)) (Field_name key f) v1)\<rparr>)"

text \<open>\<^verbatim>\<open>getattr(instance, key)\<close> and \<^verbatim>\<open>instance.key = v\<close>. A \<^verbatim>\<open>Field\<close> of the class is a
  data descriptor and comes first. Any other name is read from and written to the
  \<^verbatim>\<open>__dict__\<close> of the instance, and reading a name that is not there raises
  \<^verbatim>\<open>AttributeError\<close>.\<close>

definition getattr :: "document \<Rightarrow> string \<Rightarrow> state \<Rightarrow> error + pyval" where
  "getattr i key s =
     (case map_of (cls_attrs (inst_cls i)) key of
        Some f \<Rightarrow> Inr (Field_get key f i s)
      | None \<Rightarrow>
          (case map_of (inst_dict s (oid i)) key of
             Some v \<Rightarrow> Inr v
           | None \<Rightarrow> Inl AttributeError))"

definition setattr :: "document \<Rightarrow> string \<Rightarrow> pyval \<Rightarrow> state \<Rightarrow> state" where
  "setattr i key v s =
     (case map_of (cls_attrs (inst_cls i)) key of
        Some f \<Rightarrow> Field_set key f i v s
      | None \<Rightarrow> s\<lparr>inst_dict := (inst_dict s)(oid i := dict_setitem (inst_dict s (oid i)) key v)\<rparr>)"

text \<open>One pass of \<^verbatim>\<open>list(filter(lambda _instance: value == _instance[key], seq))\<close>.\<close>

fun filter_key :: "state \<Rightarrow> string \<Rightarrow> pyval \<Rightarrow> ref list \<Rightarrow> error + ref list" where
  "filter_key s key v [] = Inr []"
| "filter_key s key v (r # rs) =
     (case map_of (heap s r) key of
        None \<Rightarrow> Inl KeyError
      | Some w \<Rightarrow>
          (case filter_key s key v rs of
             Inl e \<Rightarrow> Inl e
           | Inr out \<Rightarrow> Inr (if py_eq v w then r # out else out)))"

fun filter_all :: "state \<Rightarrow> (string \<times> pyval) list \<Rightarrow> ref list \<Rightarrow> error + ref list" where
  "filter_all s [] seq = Inr seq"
| "filter_all s ((key, v) # kwargs) seq =
     (case filter_key s key v seq of
        Inl e \<Rightarrow> Inl e
      | Inr seq1 \<Rightarrow> filter_all s kwargs seq1)"

text \<open>\<^verbatim>\<open>Document.get_raw\<close>. It returns the record objects themselves.\<close>

definition get_raw :: "schema \<Rightarrow> (string \<times> pyval) list \<Rightarrow> state \<Rightarrow> ref list" where
  "get_raw cls kwargs s =
     (case map_of (CACHE s) (cls_name cls) of
        None \<Rightarrow> []
      | Some seq \<Rightarrow> (case filter_all s kwargs seq of Inl e \<Rightarrow> [] | Inr out \<Rightarrow> out))"

text \<open>\<^verbatim>\<open>Document.get\<close>: the loop over the raw records.\<close>

fun get_loop :: "schema \<Rightarrow> ref list \<Rightarrow> state \<Rightarrow> document list \<times> state" where
  "get_loop cls [] s = ([], s)"
| "get_loop cls (r # rs) s =
     (case Document_call cls s of (i, s1) \<Rightarrow>
        (let s2 = s1\<lparr>heap := (heap s1)(inst_data i := dict_update (heap s1 (inst_data i)) (heap s1 r))\<rparr>
         in case get_loop cls rs s2 of (query, s3) \<Rightarrow> (i # query, s3)))"

definition get :: "schema \<Rightarrow> (string \<times> pyval) list \<Rightarrow> state \<Rightarrow> document list \<times> state" where
  "get cls kwargs s = get_loop cls (get_raw cls kwargs s) s"

text \<open>
  The calls \<^verbatim>\<open>cls.get_raw(**kwargs)\<close> and \<^verbatim>\<open>cls.get(**kwargs)\<close>. Both are class methods
  with the parameter \<^verbatim>\<open>cls\<close>: a keyword of that name raises \<^verbatim>\<open>TypeError\<close> (multiple
  values for argument \<^verbatim>\<open>cls\<close>) before the body runs. \<open>get_raw\<close> and \<open>get\<close> above are the
  bodies.
\<close>

definition call_get_raw :: "schema \<Rightarrow> (string \<times> pyval) list \<Rightarrow> state \<Rightarrow> error + ref list" where
  "call_get_raw cls kwargs s =
     (if ''cls'' \<in> set (map fst kwargs) then Inl TypeError else Inr (get_raw cls kwargs s))"

definition call_get ::
  "schema \<Rightarrow> (string \<times> pyval) list \<Rightarrow> state \<Rightarrow> error + document list \<times> state" where
  "call_get cls kwargs s =
     (if ''cls'' \<in> set (map fst kwargs) then Inl TypeError else Inr (get cls kwargs s))"

text \<open>\<^verbatim>\<open>Document.to_dict\<close>.\<close>

definition to_dict :: "document \<Rightarrow> ref" where
  "to_dict i = inst_data i"

text \<open>\<^verbatim>\<open>Document.pk\<close>.\<close>

definition pk :: "document \<Rightarrow> string" where
  "pk i = meta_id_field (inst_cls i)"

text \<open>\<^verbatim>\<open>Document.save\<close>.\<close>

definition save ::
  "((string \<times> pydict list) list \<Rightarrow> string) \<Rightarrow> document \<Rightarrow> state \<Rightarrow> (error + unit) \<times> state" where
  "save dumps i s =
     (let data = to_dict i;
          class_name = cls_name (inst_cls i);
          s1 = (case map_of (CACHE s) class_name of
                  Some cache \<Rightarrow> s
                | None \<Rightarrow> s\<lparr>CACHE := AList.update class_name [] (CACHE s)\<rparr>)
      in case call_get (inst_cls i) [(pk i, dict_get (heap s1 (inst_data i)) (pk i))] s1 of
           Inl e \<Rightarrow> (Inl e, s1)
         | Inr (found, s2) \<Rightarrow>
             (if found = [] then
                WormDB_write dumps
                  (s2\<lparr>CACHE := AList.update class_name
                                 (case map_of (CACHE s2) class_name of
                                    Some cache \<Rightarrow> cache @ [data]
                                  | None \<Rightarrow> [data])
                                 (CACHE s2)\<rparr>)
              else (Inl DocumentAlreadyExists, s2)))"

text \<open>\<^verbatim>\<open>list.index\<close> and \<^verbatim>\<open>list.remove\<close> on a list of dictionaries: the first element
  that is the object or is equal to it.\<close>

fun list_index :: "state \<Rightarrow> ref list \<Rightarrow> ref \<Rightarrow> error + nat" where
  "list_index s [] x = Inl ValueError"
| "list_index s (y # ys) x =
     (if y = x \<or> dict_eq (heap s y) (heap s x) then Inr 0
      else (case list_index s ys x of Inl e \<Rightarrow> Inl e | Inr n \<Rightarrow> Inr (Suc n)))"

fun list_remove :: "state \<Rightarrow> ref list \<Rightarrow> ref \<Rightarrow> error + ref list" where
  "list_remove s [] x = Inl ValueError"
| "list_remove s (y # ys) x =
     (if y = x \<or> dict_eq (heap s y) (heap s x) then Inr ys
      else (case list_remove s ys x of Inl e \<Rightarrow> Inl e | Inr out \<Rightarrow> Inr (y # out)))"

text \<open>\<^verbatim>\<open>Document.update\<close>.\<close>

definition update ::
  "((string \<times> pydict list) list \<Rightarrow> string) \<Rightarrow> document \<Rightarrow> state \<Rightarrow> (error + unit) \<times> state" where
  "update dumps i s =
     (case getattr i (pk i) s of
        Inl e \<Rightarrow> (Inl e, s)
      | Inr v \<Rightarrow>
          (case call_get_raw (inst_cls i) [(pk i, v)] s of
             Inl e \<Rightarrow> (Inl e, s)
           | Inr found \<Rightarrow>
               (case found of
                  [] \<Rightarrow> (Inl DocumentDoesNotExist, s)
                | q # query \<Rightarrow>
                    (let data = to_dict i; class_name = cls_name (inst_cls i)
                     in case map_of (CACHE s) class_name of
                          None \<Rightarrow> (Inl KeyError, s)
                        | Some cache \<Rightarrow>
                            (case list_index s cache q of
                               Inl e \<Rightarrow> (Inl e, s)
                             | Inr n \<Rightarrow>
                                 (if n < length cache then
                                    WormDB_write dumps
                                      (s\<lparr>heap := (heap s)(cache ! n :=
                                           dict_update (heap s (cache ! n)) (heap s data))\<rparr>)
                                  else (Inl IndexError, s)))))))"

text \<open>\<^verbatim>\<open>Document.delete\<close>.\<close>

definition delete ::
  "((string \<times> pydict list) list \<Rightarrow> string) \<Rightarrow> document \<Rightarrow> state \<Rightarrow> (error + unit) \<times> state" where
  "delete dumps i s =
     (case getattr i (pk i) s of
        Inl e \<Rightarrow> (Inl e, s)
      | Inr v \<Rightarrow>
          (case call_get_raw (inst_cls i) [(pk i, v)] s of
             Inl e \<Rightarrow> (Inl e, s)
           | Inr found \<Rightarrow>
               (case found of
                  [] \<Rightarrow> (Inl DocumentDoesNotExist, s)
                | q # query \<Rightarrow>
                    (let class_name = cls_name (inst_cls i)
                     in case map_of (CACHE s) class_name of
                          None \<Rightarrow> (Inl KeyError, s)
                        | Some cache \<Rightarrow>
                            (case list_remove s cache q of
                               Inl e \<Rightarrow> (Inl e, s)
                             | Inr cache1 \<Rightarrow>
                                 WormDB_write dumps
                                   (s\<lparr>CACHE := AList.update class_name cache1 (CACHE s)\<rparr>))))))"

subsection \<open>Instances of the parameters and start-up states for the examples\<close>

text \<open>\<^verbatim>\<open>Field.__init__\<close>.\<close>

definition Field_init :: "string option \<Rightarrow> bool \<Rightarrow> pyval \<Rightarrow> Field" where
  "Field_init n p d = \<lparr>name = n, primary_key = p, default_value = d\<rparr>"

text \<open>The codec on the files of the examples: what \<^verbatim>\<open>json.load\<close> returns on each of them.
  The file of the one byte FF is not UTF-8 and raises \<^verbatim>\<open>UnicodeDecodeError\<close>; any other
  text raises \<^verbatim>\<open>JSONDecodeError\<close>.\<close>

definition example_loads :: "string \<Rightarrow> error + (string \<times> pydict list) list" where
  \<open>example_loads text =
     (if text = [CHR 0xFF] then Inl UnicodeDecodeError
      else
        (case map_of
                [(''{}'', []),
                 (''{"User": [{"id": 1, "name": "X"}]}'',
                    [(''User'', [[(''id'', PInt 1), (''name'', PStr ''X'')]])]),
                 (''{"User": [{"id": 1, "name": "A"}, {"id": 2, "name": "B"}]}'',
                    [(''User'', [[(''id'', PInt 1), (''name'', PStr ''A'')],
                                 [(''id'', PInt 2), (''name'', PStr ''B'')]])]),
                 (''{"User": [{"id": 1, "name": "A"}, {"id": 2}]}'',
                    [(''User'', [[(''id'', PInt 1), (''name'', PStr ''A'')], [(''id'', PInt 2)]])]),
                 (''{"User": [{"id": 1}, {"name": "B"}]}'',
                    [(''User'', [[(''id'', PInt 1)], [(''name'', PStr ''B'')]])]),
                 (''{"User": [{"id": "x"}]}'',
                    [(''User'', [[(''id'', PStr ''x'')]])])]
                text of
           Some parsed \<Rightarrow> Inr parsed
         | None \<Rightarrow> Inl JSONDecodeError))\<close>

text \<open>A stand-in for \<^verbatim>\<open>json.dump\<close>: it writes the collection names and the keys of
  every record.\<close>

definition example_dumps :: "(string \<times> pydict list) list \<Rightarrow> string" where
  "example_dumps c = concat (map (\<lambda>(n, ds). n @ concat (map (\<lambda>d. concat (map fst d)) ds)) c)"

text \<open>The program after \<^verbatim>\<open>import wormdb; WormDB("db.json")\<close>, with no file there, and
  with a file of the given text.\<close>

definition started_without_file :: state where
  "started_without_file = snd (WormDB_init example_loads ''db.json'' (module_state Map.empty))"

definition started_on :: "string \<Rightarrow> state" where
  "started_on text = snd (WormDB_init example_loads ''db.json'' (module_state [''db.json'' \<mapsto> text]))"

text \<open>A class, an instance of it and the state it lives in, on a file that holds one user;
  and the state after the instance has been saved.\<close>

definition one_user_file :: string where
  \<open>one_user_file = ''{"User": [{"id": 1, "name": "X"}]}''\<close>

definition example_class :: schema where
  "example_class =
     fst (projr (DocumentMeta_new ''User'' [(''name'', Field_init None False PNone)]
                   (started_on one_user_file)))"

definition example_doc :: document where
  "example_doc =
     fst (Document_call example_class
            (snd (projr (DocumentMeta_new ''User'' [(''name'', Field_init None False PNone)]
                           (started_on one_user_file)))))"

definition example_state :: state where
  "example_state =
     snd (Document_call example_class
            (snd (projr (DocumentMeta_new ''User'' [(''name'', Field_init None False PNone)]
                           (started_on one_user_file)))))"

definition example_saved :: state where
  "example_saved = snd (save example_dumps example_doc example_state)"

text \<open>\<^verbatim>\<open>class User(Document): name = Field()\<close>, defined after start-up on a file of the given
  text, and the state after the definition.\<close>

definition User_class_on :: "string \<Rightarrow> schema" where
  "User_class_on text =
     fst (projr (DocumentMeta_new ''User'' [(''name'', Field_init None False PNone)] (started_on text)))"

definition User_state_on :: "string \<Rightarrow> state" where
  "User_state_on text =
     snd (projr (DocumentMeta_new ''User'' [(''name'', Field_init None False PNone)] (started_on text)))"

definition nameless_user_file :: string where
  \<open>nameless_user_file = ''{"User": [{"id": 1, "name": "A"}, {"id": 2}]}''\<close>

definition idless_user_file :: string where
  \<open>idless_user_file = ''{"User": [{"id": 1}, {"name": "B"}]}''\<close>

definition text_id_file :: string where
  \<open>text_id_file = ''{"User": [{"id": "x"}]}''\<close>

section \<open>Properties\<close>

subsection \<open>Instances of one class share one dictionary\<close>

text \<open>
  Claim C1 says that every instance has a \<^verbatim>\<open>_data\<close> mapping of its own, empty when the
  instance is made, so that an assignment on one instance is not seen on another. The code
  makes \<^verbatim>\<open>_data\<close> once, as an attribute of the class. For
  \<^verbatim>\<open>class User(Document): name = Field()\<close> and two instances \<open>a\<close> and \<open>b\<close>: they are
  distinct objects, they read the same dictionary, that dictionary holds the generated id
  and is not empty, and after \<^verbatim>\<open>a.name = "Alice"\<close> the value of \<^verbatim>\<open>b.name\<close> has changed
  from \<^verbatim>\<open>None\<close> to \<^verbatim>\<open>"Alice"\<close>.
\<close>

theorem C1_instances_share_data:
  "(case DocumentMeta_new ''User'' [(''name'', Field_init None False PNone)] started_without_file of
      Inl e \<Rightarrow> False
    | Inr (User, s1) \<Rightarrow>
        (case Document_call User s1 of (a, s2) \<Rightarrow>
           (case Document_call User s2 of (b, s3) \<Rightarrow>
              oid a \<noteq> oid b \<and>
              inst_data a = inst_data b \<and>
              heap s3 (inst_data b) = [(''id'', PInt 1)] \<and>
              getattr b ''name'' s3 = Inr PNone \<and>
              getattr b ''name'' (setattr a ''name'' (PStr ''Alice'') s3) = Inr (PStr ''Alice''))))"
  by code_simp

subsection \<open>Two primary keys without a name\<close>

text \<open>
  Claim C2 says that a class body with two primary-key fields always fails with
  \<^verbatim>\<open>MultiplePrimaryKey\<close>. The loop records \<^verbatim>\<open>value.name\<close> of the first primary key, and
  for a field declared without a name that is still \<^verbatim>\<open>None\<close> when the loop runs, so the
  second primary key looks like the first. For
  \<^verbatim>\<open>class U(Document): a = Field(primary_key=True); b = Field(primary_key=True)\<close> the class
  is made, neither field is its primary key, and a third field \<^verbatim>\<open>id\<close> is generated.
\<close>

theorem C2_unnamed_primary_keys_accepted:
  "(case DocumentMeta_new ''U''
           [(''a'', Field_init None True PNone), (''b'', Field_init None True PNone)]
           started_without_file of
      Inl e \<Rightarrow> False
    | Inr (U, s1) \<Rightarrow>
        meta_id_field U = ''id'' \<and>
        map fst (meta_fields U) = [''id'', ''a'', ''b''] \<and>
        map (\<lambda>(k, f). primary_key f) (meta_fields U) = [True, True, True])"
  by code_simp

subsection \<open>The scenario with Alice and Bob\<close>

text \<open>
  Claim C3 is the scenario of the specification: with
  \<^verbatim>\<open>class User(Document): name = Field()\<close> and an empty store, save Alice, find her under
  id 1, save Bob under the id 2, and read both back. In the code the first save succeeds
  and \<^verbatim>\<open>User.get(id=1)\<close> returns one instance named Alice. The second instance reads the
  class dictionary, which is the record just stored: naming it Bob renames the stored
  record, its id is still 1, its \<^verbatim>\<open>save()\<close> raises \<^verbatim>\<open>DocumentAlreadyExists\<close>, and
  \<^verbatim>\<open>User.get()\<close> returns one document, named Bob.
\<close>

theorem C3_second_save_fails:
  "(case DocumentMeta_new ''User'' [(''name'', Field_init None False PNone)] started_without_file of
      Inl e \<Rightarrow> False
    | Inr (User, s1) \<Rightarrow>
        (case Document_call User s1 of (a, s2) \<Rightarrow>
           (case save example_dumps a (setattr a ''name'' (PStr ''Alice'') s2) of (r1, s3) \<Rightarrow>
              (case get User [(''id'', PInt 1)] s3 of (q1, s4) \<Rightarrow>
                 (case Document_call User s4 of (b, s5) \<Rightarrow>
                    (case save example_dumps b (setattr b ''name'' (PStr ''Bob'') s5) of (r2, s6) \<Rightarrow>
                       (case get User [] s6 of (q2, s7) \<Rightarrow>
                          r1 = Inr () \<and>
                          map (\<lambda>i. getattr i ''name'' s4) q1 = [Inr (PStr ''Alice'')] \<and>
                          r2 = Inl DocumentAlreadyExists \<and>
                          getattr b ''id'' s6 = Inr (PInt 1) \<and>
                          length q2 = 1 \<and>
                          map (\<lambda>i. getattr i ''name'' s7) q2 = [Inr (PStr ''Bob'')] \<and>
                          snapshot s7 = [(''User'', [[(''id'', PInt 1), (''name'', PStr ''Bob'')]])])))))))"
  by code_simp

subsection \<open>A refused save that rewrites a stored record\<close>

text \<open>
  Claim C5 says that a \<^verbatim>\<open>save()\<close> refused with \<^verbatim>\<open>DocumentAlreadyExists\<close> leaves the
  collection unchanged, and that \<^verbatim>\<open>update()\<close> and \<^verbatim>\<open>delete()\<close> without a matching record
  fail with \<^verbatim>\<open>DocumentDoesNotExist\<close>.

  First part. The file holds one user, \<^verbatim>\<open>{"id": 1, "name": "X"}\<close>. An instance \<open>a\<close> of
  \<^verbatim>\<open>class User(Document): name = Field()\<close> is saved under the generated id 2, then
  \<^verbatim>\<open>a.id = 1\<close> and \<^verbatim>\<open>a.save()\<close> again. The second save is refused and the file is as it
  was, but the check runs \<^verbatim>\<open>get\<close>, which copies the record found into the class
  dictionary, and that dictionary is the second record of the collection: the collection
  is \<^verbatim>\<open>[{id: 1, name: X}, {id: 1}]\<close> before the call and
  \<^verbatim>\<open>[{id: 1, name: X}, {id: 1, name: X}]\<close> after it.

  Second part. \<^verbatim>\<open>update\<close> and \<^verbatim>\<open>delete\<close> read the key with \<^verbatim>\<open>getattr(self, self.pk)\<close>,
  where \<^verbatim>\<open>save\<close> reads \<^verbatim>\<open>_data\<close>. For \<^verbatim>\<open>class Item(Document): code = Field(name="k",
  primary_key=True)\<close> the class has no attribute \<^verbatim>\<open>k\<close>, and both raise
  \<^verbatim>\<open>AttributeError\<close> on an instance that matches no record.
\<close>

theorem C5_refused_save_changes_collection:
  "(case DocumentMeta_new ''User'' [(''name'', Field_init None False PNone)]
           (started_on ''{\"User\": [{\"id\": 1, \"name\": \"X\"}]}'') of
      Inl e \<Rightarrow> False
    | Inr (User, s1) \<Rightarrow>
        (case Document_call User s1 of (a, s2) \<Rightarrow>
           (case save example_dumps a s2 of (r1, s3) \<Rightarrow>
              (case save example_dumps a (setattr a ''id'' (PInt 1) s3) of (r2, s4) \<Rightarrow>
                 r1 = Inr () \<and>
                 snapshot (setattr a ''id'' (PInt 1) s3) =
                   [(''User'', [[(''id'', PInt 1), (''name'', PStr ''X'')], [(''id'', PInt 1)]])] \<and>
                 r2 = Inl DocumentAlreadyExists \<and>
                 snapshot s4 =
                   [(''User'', [[(''id'', PInt 1), (''name'', PStr ''X'')],
                                [(''id'', PInt 1), (''name'', PStr ''X'')]])] \<and>
                 files s4 ''db.json'' = files s3 ''db.json'')))) \<and>
   (case DocumentMeta_new ''Item'' [(''code'', Field_init (Some ''k'') True PNone)]
           started_without_file of
      Inl e \<Rightarrow> False
    | Inr (Item, s1) \<Rightarrow>
        (case Document_call Item s1 of (i, s2) \<Rightarrow>
           get_raw Item [(''k'', PInt 7)] (setattr i ''code'' (PInt 7) s2) = [] \<and>
           fst (update example_dumps i (setattr i ''code'' (PInt 7) s2)) = Inl AttributeError \<and>
           fst (delete example_dumps i (setattr i ''code'' (PInt 7) s2)) = Inl AttributeError))"
  by code_simp

subsection \<open>Instances returned by a query\<close>

text \<open>
  Claim C8 says that \<^verbatim>\<open>get\<close> returns, for each record matched, a new instance whose
  \<^verbatim>\<open>_data\<close> is that record's contents. The instances are new objects, but each is filled
  through the dictionary of the class. With the two users \<^verbatim>\<open>{id: 1, name: A}\<close> and
  \<^verbatim>\<open>{id: 2, name: B}\<close> in the file, \<^verbatim>\<open>User.get()\<close> returns two instances that both read
  id 2 and name B; none of them reads the first record.
\<close>

theorem C8_query_instances_read_last_record:
  "(case DocumentMeta_new ''User'' [(''name'', Field_init None False PNone)]
           (started_on ''{\"User\": [{\"id\": 1, \"name\": \"A\"}, {\"id\": 2, \"name\": \"B\"}]}'') of
      Inl e \<Rightarrow> False
    | Inr (User, s1) \<Rightarrow>
        (case get User [] s1 of (query, s2) \<Rightarrow>
           map (heap s2) (get_raw User [] s1) =
             [[(''id'', PInt 1), (''name'', PStr ''A'')], [(''id'', PInt 2), (''name'', PStr ''B'')]] \<and>
           map oid query = [0, 1] \<and>
           map (\<lambda>i. heap s2 (inst_data i)) query =
             [[(''id'', PInt 2), (''name'', PStr ''B'')], [(''id'', PInt 2), (''name'', PStr ''B'')]] \<and>
           map (\<lambda>i. getattr i ''name'' s2) query = [Inr (PStr ''B''), Inr (PStr ''B'')]))"
  by code_simp

subsection \<open>Write-through\<close>

text \<open>\<^verbatim>\<open>WormDB.write\<close> changes the file only, and every mutating method ends with it.\<close>

lemma WormDB_write_through:
  "WormDB_write dumps s = (Inr (), s') \<Longrightarrow> files s' (DB_PATH s') = Some (dumps (snapshot s'))"
  by (auto simp: WormDB_write_def snapshot_def split: if_splits)

lemma WormDB_write_frame:
  "WormDB_write dumps s = (r, s') \<Longrightarrow> CACHE s' = CACHE s \<and> heap s' = heap s \<and> DB_PATH s' = DB_PATH s"
  by (auto simp: WormDB_write_def split: if_splits)

lemma save_ends_with_write:
  "save dumps i s = (Inr (), s') \<Longrightarrow> \<exists>t. WormDB_write dumps t = (Inr (), s')"
  by (auto simp: save_def Let_def split: sum.splits prod.splits if_splits)

lemma update_ends_with_write:
  "update dumps i s = (Inr (), s') \<Longrightarrow> \<exists>t. WormDB_write dumps t = (Inr (), s')"
  by (auto simp: update_def Let_def split: sum.splits list.splits option.splits if_splits)

lemma delete_ends_with_write:
  "delete dumps i s = (Inr (), s') \<Longrightarrow> \<exists>t. WormDB_write dumps t = (Inr (), s')"
  by (auto simp: delete_def Let_def split: sum.splits list.splits option.splits if_splits)

text \<open>
  Claim C9: when \<^verbatim>\<open>save\<close>, \<^verbatim>\<open>update\<close> or \<^verbatim>\<open>delete\<close> returns without an exception, the
  file at \<^verbatim>\<open>DB_PATH\<close> holds the serialization of the whole of \<^verbatim>\<open>CACHE\<close> as it is when the
  method returns.
\<close>

theorem C9_write_through:
  assumes "op = save dumps \<or> op = update dumps \<or> op = delete dumps"
      and "op i s = (Inr (), s')"
  shows "files s' (DB_PATH s') = Some (dumps (snapshot s'))"
  using assms save_ends_with_write update_ends_with_write delete_ends_with_write WormDB_write_through
  by metis

theorem C9_write_through_witness:
  "fst (save example_dumps example_doc example_state) = Inr () \<and>
   files example_saved ''db.json'' = Some (example_dumps (snapshot example_saved)) \<and>
   fst (update example_dumps example_doc example_saved) = Inr () \<and>
   files (snd (update example_dumps example_doc example_saved)) ''db.json''
     = Some (example_dumps (snapshot (snd (update example_dumps example_doc example_saved)))) \<and>
   fst (delete example_dumps example_doc example_saved) = Inr () \<and>
   files (snd (delete example_dumps example_doc example_saved)) ''db.json''
     = Some (example_dumps (snapshot (snd (delete example_dumps example_doc example_saved))))"
proof -
  have s: "fst (save example_dumps example_doc example_state) = Inr ()" by code_simp
  have u: "fst (update example_dumps example_doc example_saved) = Inr ()" by code_simp
  have d: "fst (delete example_dumps example_doc example_saved) = Inr ()" by code_simp
  have ps: "DB_PATH example_saved = ''db.json''" by code_simp
  have pu: "DB_PATH (snd (update example_dumps example_doc example_saved)) = ''db.json''" by code_simp
  have pd: "DB_PATH (snd (delete example_dumps example_doc example_saved)) = ''db.json''" by code_simp
  have s': "save example_dumps example_doc example_state = (Inr (), example_saved)"
    using s by (simp add: example_saved_def prod_eq_iff)
  have u': "update example_dumps example_doc example_saved
              = (Inr (), snd (update example_dumps example_doc example_saved))"
    using u by (simp add: prod_eq_iff)
  have d': "delete example_dumps example_doc example_saved
              = (Inr (), snd (delete example_dumps example_doc example_saved))"
    using d by (simp add: prod_eq_iff)
  show ?thesis
    using s u d
      C9_write_through [of "save example_dumps" example_dumps, OF _ s']
      C9_write_through [of "update example_dumps" example_dumps, OF _ u']
      C9_write_through [of "delete example_dumps" example_dumps, OF _ d']
    by (simp add: ps pu pd)
qed

subsection \<open>The stored record is the dictionary the instance reads\<close>

text \<open>\<^verbatim>\<open>get\<close> touches neither \<^verbatim>\<open>CACHE\<close> nor the file system.\<close>

lemma get_loop_frame:
  "get_loop cls rs s = (q, s') \<Longrightarrow> CACHE s' = CACHE s \<and> DB_PATH s' = DB_PATH s \<and> files s' = files s \<and> unwritable s' = unwritable s"
proof (induction rs arbitrary: s q s')
  case Nil
  then show ?case by simp
next
  case (Cons r rs)
  then show ?case
    by (fastforce simp: Document_call_def Let_def split: prod.splits)
qed

lemma get_frame:
  "get cls kw s = (q, s') \<Longrightarrow> CACHE s' = CACHE s \<and> DB_PATH s' = DB_PATH s \<and> files s' = files s \<and> unwritable s' = unwritable s"
  unfolding get_def by (rule get_loop_frame)

lemma save_appends_data:
  assumes "save dumps i s = (Inr (), s')"
  shows "map_of (CACHE s') (cls_name (inst_cls i)) =
           Some ((case map_of (CACHE s) (cls_name (inst_cls i)) of None \<Rightarrow> [] | Some cache \<Rightarrow> cache) @ [to_dict i])"
proof -
  let ?n = "cls_name (inst_cls i)"
  let ?s1 = "case map_of (CACHE s) ?n of Some cache \<Rightarrow> s
             | None \<Rightarrow> s\<lparr>CACHE := AList.update ?n [] (CACHE s)\<rparr>"
  let ?kw = "[(pk i, dict_get (heap ?s1 (inst_data i)) (pk i))]"
  obtain found s2 where g: "call_get (inst_cls i) ?kw ?s1 = Inr (found, s2)"
    using assms by (auto simp: save_def Let_def split: sum.splits)
  then have "get (inst_cls i) ?kw ?s1 = (found, s2)"
    by (simp add: call_get_def split: if_splits)
  from get_frame [OF this] have c2: "CACHE s2 = CACHE ?s1" by simp
  let ?s3 = "s2\<lparr>CACHE := AList.update ?n
                      (case map_of (CACHE s2) ?n of Some cache \<Rightarrow> cache @ [to_dict i]
                       | None \<Rightarrow> [to_dict i]) (CACHE s2)\<rparr>"
  have w: "WormDB_write dumps ?s3 = (Inr (), s')"
    using assms g by (simp add: save_def Let_def split: if_splits)
  from WormDB_write_frame [OF w] have "CACHE s' = CACHE ?s3" by simp
  then show ?thesis
    using c2 by (simp add: update_conv' split: option.splits)
qed

text \<open>
  Claim C10: \<^verbatim>\<open>to_dict\<close> returns the \<^verbatim>\<open>_data\<close> dictionary itself, and a successful
  \<^verbatim>\<open>save\<close> appends that very object to the collection. So when a field of the saved
  instance is assigned afterwards, without any \<^verbatim>\<open>update()\<close>, \<^verbatim>\<open>get_raw()\<close> returns the
  collection with that object as its last record, and the record holds the value just
  assigned (or the default of the field, when \<^verbatim>\<open>None\<close> is assigned and a default is set).
\<close>

theorem C10_saved_record_is_live_data:
  assumes "save dumps i s = (Inr (), s')"
      and "map_of (cls_attrs (inst_cls i)) key = Some f"
  shows "to_dict i = inst_data i \<and>
         map_of (CACHE s') (cls_name (inst_cls i)) =
           Some ((case map_of (CACHE s) (cls_name (inst_cls i)) of None \<Rightarrow> [] | Some cache \<Rightarrow> cache)
                 @ [inst_data i]) \<and>
         get_raw (inst_cls i) [] (setattr i key v s') =
           (case map_of (CACHE s) (cls_name (inst_cls i)) of None \<Rightarrow> [] | Some cache \<Rightarrow> cache)
           @ [inst_data i] \<and>
         map_of (heap (setattr i key v s') (inst_data i)) (Field_name key f) =
           Some (if v = PNone \<and> default_value f \<noteq> PNone then default_value f else v)"
  using save_appends_data[OF assms(1)] assms(2)
  by (simp add: to_dict_def get_raw_def setattr_def Field_set_def Let_def dict_setitem_def update_conv')


theorem C10_saved_record_is_live_data_witness:
  "fst (save example_dumps example_doc example_state) = Inr () \<and>
   map_of (cls_attrs (inst_cls example_doc)) ''name'' = Some (Field_init (Some ''name'') False PNone) \<and>
   get_raw example_class [] example_saved = [0, 1] \<and>
   inst_data example_doc = 1 \<and>
   heap example_saved 1 = [(''id'', PInt 2)] \<and>
   get_raw example_class [] (setattr example_doc ''name'' (PStr ''Eve'') example_saved) = [0, 1] \<and>
   map_of (heap (setattr example_doc ''name'' (PStr ''Eve'') example_saved) 1) ''name''
     = Some (PStr ''Eve'')"
proof -
  have s: "fst (save example_dumps example_doc example_state) = Inr ()" by code_simp
  have s': "save example_dumps example_doc example_state = (Inr (), example_saved)"
    using s by (simp add: example_saved_def prod_eq_iff)
  have a: "map_of (cls_attrs (inst_cls example_doc)) ''name''
             = Some (Field_init (Some ''name'') False PNone)"
    by code_simp
  have c: "inst_cls example_doc = example_class" by code_simp
  have d: "inst_data example_doc = 1" by code_simp
  have e: "map_of (CACHE example_state) (cls_name example_class) = Some [0]" by code_simp
  have f: "Field_name ''name'' (Field_init (Some ''name'') False PNone) = ''name''" by code_simp
  have g: "get_raw example_class [] example_saved = [0, 1]" by code_simp
  have h: "heap example_saved 1 = [(''id'', PInt 2)]" by code_simp
  show ?thesis
    using s a g h C10_saved_record_is_live_data [OF s' a, of "PStr ''Eve''"]
    by (simp add: c d e f)
qed

subsection \<open>Loading the file\<close>

text \<open>The records made from a parsed file are new objects that hold the parsed contents, and
  making them touches nothing that was there before.\<close>

lemma new_records_spec:
  "new_records ds s = (rs, s') \<Longrightarrow>
     map (heap s') rs = ds \<and> next_ref s' = next_ref s + length ds \<and>
     list_all (\<lambda>r. next_ref s \<le> r \<and> r < next_ref s') rs \<and>
     (\<forall>r < next_ref s. heap s' r = heap s r) \<and>
     DB_PATH s' = DB_PATH s \<and> CACHE s' = CACHE s \<and> files s' = files s \<and>
     unwritable s' = unwritable s \<and> next_oid s' = next_oid s"
proof (induction ds arbitrary: s rs s')
  case Nil
  then show ?case by simp
next
  case (Cons d ds)
  obtain rs1 s1 where r: "new_records ds (snd (new_dict d s)) = (rs1, s1)"
    by (cases "new_records ds (snd (new_dict d s))")
  from Cons.prems r have rs: "rs = next_ref s # rs1" and s': "s' = s1"
    by (auto simp: new_dict_def split: prod.splits)
  note ih = Cons.IH [OF r]
  have below: "heap s1 (next_ref s) = d"
    using ih by (simp add: new_dict_def)
  show ?case
    using ih below unfolding rs s'
    by (auto simp: new_dict_def list_all_iff)
qed


lemma new_collections_spec:
  "new_collections cs s = (c, s') \<Longrightarrow>
     map (\<lambda>(n, refs). (n, map (heap s') refs)) c = cs \<and> next_ref s \<le> next_ref s' \<and>
     (\<forall>r < next_ref s. heap s' r = heap s r) \<and>
     DB_PATH s' = DB_PATH s \<and> CACHE s' = CACHE s \<and> files s' = files s \<and>
     unwritable s' = unwritable s \<and> next_oid s' = next_oid s"
proof (induction cs arbitrary: s c s')
  case Nil
  then show ?case by simp
next
  case (Cons a cs)
  obtain n ds where a: "a = (n, ds)" by (cases a)
  obtain rs s1 where r: "new_records ds s = (rs, s1)" by (cases "new_records ds s")
  obtain c1 s2 where k: "new_collections cs s1 = (c1, s2)" by (cases "new_collections cs s1")
  from Cons.prems a r k have c: "c = (n, rs) # c1" and s': "s' = s2" by auto
  note h1 = new_records_spec [OF r]
  note h2 = Cons.IH [OF k]
  have "map (heap s2) rs = map (heap s1) rs"
    using h1 h2 by (auto simp: list_all_iff)
  then have "map (heap s2) rs = ds" using h1 by simp
  then show ?case
    using h1 h2 unfolding c s' a by auto
qed

lemma WormDB_read_parsed:
  assumes "files s (DB_PATH s) = Some content" and "loads content = Inr parsed"
  shows "fst (WormDB_read loads s) = Inr () \<and> snapshot (snd (WormDB_read loads s)) = parsed \<and>
         DB_PATH (snd (WormDB_read loads s)) = DB_PATH s \<and> files (snd (WormDB_read loads s)) = files s"
proof -
  obtain c s1 where n: "new_collections parsed s = (c, s1)" by (cases "new_collections parsed s")
  have "WormDB_read loads s = (Inr (), s1\<lparr>CACHE := c\<rparr>)"
    using assms n by (simp add: WormDB_read_def)
  then show ?thesis
    using new_collections_spec [OF n] by (simp add: snapshot_def)
qed

text \<open>
  Claim C7 says that loading from a path without a file leaves the store empty, without
  error. \<^verbatim>\<open>WormDB.__init__\<close> calls \<^verbatim>\<open>read\<close> only when the file exists and otherwise does
  nothing to \<^verbatim>\<open>CACHE\<close>: after \<^verbatim>\<open>WormDB("db.json")\<close> on a file with one user,
  \<^verbatim>\<open>WormDB("other.json")\<close> with no such file raises nothing and the store still holds that
  user. \<^verbatim>\<open>WormDB.read\<close> on its own, with no file at the path, raises.
\<close>

theorem C7_absent_file_keeps_store:
  "files (started_on one_user_file) ''other.json'' = None \<and>
   fst (WormDB_init example_loads ''other.json'' (started_on one_user_file)) = Inr () \<and>
   snapshot (snd (WormDB_init example_loads ''other.json'' (started_on one_user_file)))
     = [(''User'', [[(''id'', PInt 1), (''name'', PStr ''X'')]])] \<and>
   files ((module_state Map.empty)\<lparr>DB_PATH := ''db.json''\<rparr>) ''db.json'' = None \<and>
   fst (WormDB_read example_loads ((module_state Map.empty)\<lparr>DB_PATH := ''db.json''\<rparr>)) = Inl OSError"
  by code_simp

text \<open>
  Claim C7 as amended, about \<^verbatim>\<open>WormDB(db_path)\<close>, which sets the path and reads the file
  when it exists. With no file there is no error and the store is left as it was (empty,
  then, if nothing was loaded before). An empty file gives an empty store. A file that is
  not empty and that the codec rejects makes the load fail with the exception of the codec
  (\<^verbatim>\<open>JSONDecodeError\<close>, the \<^verbatim>\<open>CorruptStore\<close> of the specification, is re-raised; any other
  exception is not caught), and the store is left as it was. Otherwise the store is the
  parsed content. That \<^verbatim>\<open>json.load\<close> raises \<^verbatim>\<open>JSONDecodeError\<close> on the empty text is a
  fact about the codec, taken as the hypothesis.
\<close>

theorem C7_load:
  assumes "loads [] = Inl JSONDecodeError"
  shows "(files s p = None \<longrightarrow>
            WormDB_init loads p s = (Inr (), s\<lparr>DB_PATH := p\<rparr>)) \<and>
         (files s p = Some [] \<longrightarrow>
            WormDB_init loads p s = (Inr (), s\<lparr>DB_PATH := p, CACHE := []\<rparr>)) \<and>
         (files s p = Some content \<and> content \<noteq> [] \<and> loads content = Inl e \<longrightarrow>
            WormDB_init loads p s = (Inl e, s\<lparr>DB_PATH := p\<rparr>)) \<and>
         (files s p = Some content \<and> loads content = Inr parsed \<longrightarrow>
            fst (WormDB_init loads p s) = Inr () \<and>
            snapshot (snd (WormDB_init loads p s)) = parsed)"
proof -
  have absent: "files s p = None \<longrightarrow> WormDB_init loads p s = (Inr (), s\<lparr>DB_PATH := p\<rparr>)"
    by (simp add: WormDB_init_def)
  have empty: "files s p = Some [] \<longrightarrow>
                 WormDB_init loads p s = (Inr (), s\<lparr>DB_PATH := p, CACHE := []\<rparr>)"
    using assms by (simp add: WormDB_init_def WormDB_read_def)
  have corrupt: "files s p = Some content \<and> content \<noteq> [] \<and> loads content = Inl e \<longrightarrow>
                   WormDB_init loads p s = (Inl e, s\<lparr>DB_PATH := p\<rparr>)"
    by (auto simp: WormDB_init_def WormDB_read_def Let_def)
  have parsed: "files s p = Some content \<and> loads content = Inr parsed \<longrightarrow>
                  fst (WormDB_init loads p s) = Inr () \<and>
                  snapshot (snd (WormDB_init loads p s)) = parsed"
  proof
    assume a: "files s p = Some content \<and> loads content = Inr parsed"
    then have i: "WormDB_init loads p s = WormDB_read loads (s\<lparr>DB_PATH := p\<rparr>)"
      by (simp add: WormDB_init_def)
    from a have "files (s\<lparr>DB_PATH := p\<rparr>) (DB_PATH (s\<lparr>DB_PATH := p\<rparr>)) = Some content"
      by simp
    from WormDB_read_parsed [OF this] a
    show "fst (WormDB_init loads p s) = Inr () \<and> snapshot (snd (WormDB_init loads p s)) = parsed"
      unfolding i by simp
  qed
  from absent empty corrupt parsed show ?thesis by blast
qed

theorem C7_load_witness:
  "example_loads [] = Inl JSONDecodeError \<and>
   fst (WormDB_init example_loads ''other.json'' (started_on one_user_file)) = Inr () \<and>
   CACHE (snd (WormDB_init example_loads ''other.json'' (started_on one_user_file)))
     = CACHE (started_on one_user_file) \<and>
   fst (WormDB_init example_loads ''db.json'' (module_state [''db.json'' \<mapsto> []])) = Inr () \<and>
   CACHE (snd (WormDB_init example_loads ''db.json'' (module_state [''db.json'' \<mapsto> []]))) = [] \<and>
   fst (WormDB_init example_loads ''db.json'' (module_state [''db.json'' \<mapsto> ''{\"User\": '']))
     = Inl JSONDecodeError \<and>
   fst (WormDB_init example_loads ''db.json'' (module_state [''db.json'' \<mapsto> [CHR 0xFF]]))
     = Inl UnicodeDecodeError \<and>
   fst (WormDB_init example_loads ''db.json'' (module_state [''db.json'' \<mapsto> one_user_file]))
     = Inr () \<and>
   snapshot (snd (WormDB_init example_loads ''db.json'' (module_state [''db.json'' \<mapsto> one_user_file])))
     = [(''User'', [[(''id'', PInt 1), (''name'', PStr ''X'')]])]"
proof -
  have e: "example_loads [] = Inl JSONDecodeError" by code_simp
  have t: "example_loads ''{\"User\": '' = Inl JSONDecodeError" by code_simp
  have u: "example_loads [CHR 0xFF] = Inl UnicodeDecodeError" by code_simp
  have g: "example_loads one_user_file = Inr [(''User'', [[(''id'', PInt 1), (''name'', PStr ''X'')]])]"
    by code_simp
  have o: "files (started_on one_user_file) ''other.json'' = None" by code_simp
  note a = C7_load [where loads = example_loads and s = "started_on one_user_file"
                     and p = "''other.json''", OF e]
  note b = C7_load [where loads = example_loads and s = "module_state [''db.json'' \<mapsto> []]"
                     and p = "''db.json''", OF e]
  note c = C7_load [where loads = example_loads
                     and s = "module_state [''db.json'' \<mapsto> ''{\"User\": '']"
                     and p = "''db.json''" and content = "''{\"User\": ''" and e = JSONDecodeError, OF e]
  note c' = C7_load [where loads = example_loads
                     and s = "module_state [''db.json'' \<mapsto> [CHR 0xFF]]"
                     and p = "''db.json''" and content = "[CHR 0xFF]" and e = UnicodeDecodeError, OF e]
  note d = C7_load [where loads = example_loads
                     and s = "module_state [''db.json'' \<mapsto> one_user_file]"
                     and p = "''db.json''" and content = one_user_file
                     and parsed = "[(''User'', [[(''id'', PInt 1), (''name'', PStr ''X'')]])]", OF e]
  have ra: "WormDB_init example_loads ''other.json'' (started_on one_user_file)
              = (Inr (), (started_on one_user_file)\<lparr>DB_PATH := ''other.json''\<rparr>)"
    using a o by blast
  have rb: "WormDB_init example_loads ''db.json'' (module_state [''db.json'' \<mapsto> []])
              = (Inr (), (module_state [''db.json'' \<mapsto> []])\<lparr>DB_PATH := ''db.json'', CACHE := []\<rparr>)"
    using b by (simp add: module_state_def)
  have rc: "fst (WormDB_init example_loads ''db.json'' (module_state [''db.json'' \<mapsto> ''{\"User\": '']))
              = Inl JSONDecodeError"
    using c t by (simp add: module_state_def)
  have rc': "fst (WormDB_init example_loads ''db.json'' (module_state [''db.json'' \<mapsto> [CHR 0xFF]]))
              = Inl UnicodeDecodeError"
    using c' u by (simp add: module_state_def)
  have rd: "fst (WormDB_init example_loads ''db.json'' (module_state [''db.json'' \<mapsto> one_user_file]))
              = Inr () \<and>
            snapshot (snd (WormDB_init example_loads ''db.json'' (module_state [''db.json'' \<mapsto> one_user_file])))
              = [(''User'', [[(''id'', PInt 1), (''name'', PStr ''X'')]])]"
    using d g by (simp add: module_state_def)
  show ?thesis
    using e ra rb rc rc' rd by simp
qed

subsection \<open>Raw queries\<close>

text \<open>One pass of the filter raises \<^verbatim>\<open>KeyError\<close>, and nothing else, exactly when a record
  of the sequence lacks the key; the passes together raise it exactly when a record that
  met the criteria before some key lacks that key.\<close>

lemma filter_key_error:
  "filter_key s k v seq = Inl e \<Longrightarrow> e = KeyError"
  by (induction seq arbitrary: e) (auto split: option.splits sum.splits)

lemma filter_key_missing:
  "r \<in> set seq \<Longrightarrow> map_of (heap s r) k = None \<Longrightarrow> filter_key s k v seq = Inl KeyError"
proof (induction seq)
  case Nil
  then show ?case by simp
next
  case (Cons a seq)
  show ?case
  proof (cases "map_of (heap s a) k")
    case None
    then show ?thesis by simp
  next
    case (Some w)
    with Cons have "filter_key s k v seq = Inl KeyError" by auto
    with Some show ?thesis by simp
  qed
qed

lemma filter_key_present:
  "\<forall>r\<in>set seq. map_of (heap s r) k \<noteq> None \<Longrightarrow>
     filter_key s k v seq = Inr (filter (\<lambda>r. \<exists>w. map_of (heap s r) k = Some w \<and> py_eq v w) seq)"
  by (induction seq) (auto split: option.splits sum.splits)

lemma filter_all_spec:
  "filter_all s kwargs seq =
     (if \<exists>pre k v post r. kwargs = pre @ (k, v) # post \<and> r \<in> set seq \<and>
            (\<forall>(k', v')\<in>set pre. \<exists>w. map_of (heap s r) k' = Some w \<and> py_eq v' w) \<and>
            map_of (heap s r) k = None
      then Inl KeyError
      else Inr (filter (\<lambda>r. \<forall>(k, v)\<in>set kwargs. \<exists>w. map_of (heap s r) k = Some w \<and> py_eq v w) seq))"
proof (induction kwargs arbitrary: seq)
  case Nil
  then show ?case by simp
next
  case (Cons a kwargs)
  obtain k v where a: "a = (k, v)" by (cases a)
  let ?m = "\<lambda>r (k, v). \<exists>w. map_of (heap s r) k = Some w \<and> py_eq v w"
  let ?bad = "\<lambda>kw sq. \<exists>pre k v post r. kw = pre @ (k, v) # post \<and> r \<in> set sq \<and>
            (\<forall>(k', v')\<in>set pre. \<exists>w. map_of (heap s r) k' = Some w \<and> py_eq v' w) \<and>
            map_of (heap s r) k = None"
  show ?case
  proof (cases "\<exists>r\<in>set seq. map_of (heap s r) k = None")
    case True
    then obtain r where r: "r \<in> set seq" "map_of (heap s r) k = None" by blast
    have "?bad (a # kwargs) seq"
      apply (rule exI [of _ "[]"], rule exI [of _ k], rule exI [of _ v], rule exI [of _ kwargs], rule exI [of _ r])
      using r a by simp
    moreover have "filter_all s (a # kwargs) seq = Inl KeyError"
      using filter_key_missing [OF r] a by simp
    ultimately show ?thesis by simp
  next
    case False
    then have pres: "\<forall>r\<in>set seq. map_of (heap s r) k \<noteq> None" by simp
    let ?seq1 = "filter (\<lambda>r. \<exists>w. map_of (heap s r) k = Some w \<and> py_eq v w) seq"
    have step: "filter_all s (a # kwargs) seq = filter_all s kwargs ?seq1"
      using filter_key_present [OF pres] a by simp
    have bad: "?bad (a # kwargs) seq \<longleftrightarrow> ?bad kwargs ?seq1"
    proof
      assume "?bad (a # kwargs) seq"
      then obtain pre k0 v0 post r where d: "a # kwargs = pre @ (k0, v0) # post" "r \<in> set seq"
          "\<forall>(k', v')\<in>set pre. \<exists>w. map_of (heap s r) k' = Some w \<and> py_eq v' w"
          "map_of (heap s r) k0 = None" by blast
      show "?bad kwargs ?seq1"
      proof (cases pre)
        case Nil
        with d a pres show ?thesis by auto
      next
        case (Cons b pre')
        with d a have b: "b = (k, v)" and kw: "kwargs = pre' @ (k0, v0) # post" by auto
        from d Cons b have "r \<in> set ?seq1" by auto
        moreover from d Cons have "\<forall>(k', v')\<in>set pre'. \<exists>w. map_of (heap s r) k' = Some w \<and> py_eq v' w"
          by auto
        ultimately show ?thesis using kw d(4) by blast
      qed
    next
      assume "?bad kwargs ?seq1"
      then obtain pre k0 v0 post r where d: "kwargs = pre @ (k0, v0) # post" "r \<in> set ?seq1"
          "\<forall>(k', v')\<in>set pre. \<exists>w. map_of (heap s r) k' = Some w \<and> py_eq v' w"
          "map_of (heap s r) k0 = None" by blast
      have 1: "a # kwargs = (a # pre) @ (k0, v0) # post" using d by simp
      have 2: "r \<in> set seq" using d by simp
      have 3: "\<forall>(k', v')\<in>set (a # pre). \<exists>w. map_of (heap s r) k' = Some w \<and> py_eq v' w"
        using d a by auto
      from 1 2 3 d(4) show "?bad (a # kwargs) seq" by blast
    qed
    have flt: "filter (\<lambda>r. \<forall>(k, v)\<in>set kwargs. \<exists>w. map_of (heap s r) k = Some w \<and> py_eq v w) ?seq1
             = filter (\<lambda>r. \<forall>(k, v)\<in>set (a # kwargs). \<exists>w. map_of (heap s r) k = Some w \<and> py_eq v w) seq"
      unfolding a by (auto intro!: filter_cong)
    show ?thesis
      unfolding step Cons.IH [of ?seq1] bad [symmetric] flt by simp
  qed
qed

text \<open>
  What the method computes. It returns the empty list when the collection does not exist.
  When it exists: without criteria the result is the collection; with criteria, taken in
  the order given, the result is empty as soon as a record that meets all criteria before a
  key lacks that key, and otherwise it is the list of the records that have, for every
  criterion, a value equal (\<^verbatim>\<open>==\<close>) to the required one, in collection order.
\<close>

lemma get_raw_exact:
  "(map_of (CACHE s) (cls_name cls) = None \<longrightarrow> get_raw cls kwargs s = []) \<and>
   (map_of (CACHE s) (cls_name cls) = Some seq \<longrightarrow>
      get_raw cls [] s = seq \<and>
      get_raw cls kwargs s =
        (if \<exists>pre k v post r. kwargs = pre @ (k, v) # post \<and> r \<in> set seq \<and>
               (\<forall>(k', v')\<in>set pre. \<exists>w. map_of (heap s r) k' = Some w \<and> py_eq v' w) \<and>
               map_of (heap s r) k = None
         then []
         else filter (\<lambda>r. \<forall>(k, v)\<in>set kwargs. \<exists>w. map_of (heap s r) k = Some w \<and> py_eq v w) seq))"
proof -
  have absent: "map_of (CACHE s) (cls_name cls) = None \<longrightarrow> get_raw cls kwargs s = []"
    by (simp add: get_raw_def)
  have present: "map_of (CACHE s) (cls_name cls) = Some seq \<longrightarrow>
      get_raw cls [] s = seq \<and>
      get_raw cls kwargs s =
        (if \<exists>pre k v post r. kwargs = pre @ (k, v) # post \<and> r \<in> set seq \<and>
               (\<forall>(k', v')\<in>set pre. \<exists>w. map_of (heap s r) k' = Some w \<and> py_eq v' w) \<and>
               map_of (heap s r) k = None
         then []
         else filter (\<lambda>r. \<forall>(k, v)\<in>set kwargs. \<exists>w. map_of (heap s r) k = Some w \<and> py_eq v w) seq)"
  proof
    assume c: "map_of (CACHE s) (cls_name cls) = Some seq"
    have all: "get_raw cls [] s = seq"
      using c by (simp add: get_raw_def)
    have some: "get_raw cls kwargs s = (case filter_all s kwargs seq of Inl e \<Rightarrow> [] | Inr out \<Rightarrow> out)"
      using c by (simp add: get_raw_def)
    show "get_raw cls [] s = seq \<and>
      get_raw cls kwargs s =
        (if \<exists>pre k v post r. kwargs = pre @ (k, v) # post \<and> r \<in> set seq \<and>
               (\<forall>(k', v')\<in>set pre. \<exists>w. map_of (heap s r) k' = Some w \<and> py_eq v' w) \<and>
               map_of (heap s r) k = None
         then []
         else filter (\<lambda>r. \<forall>(k, v)\<in>set kwargs. \<exists>w. map_of (heap s r) k = Some w \<and> py_eq v w) seq)"
      unfolding some filter_all_spec [of s kwargs seq] using all
      by (simp only: if_distrib [of "case_sum (\<lambda>e. []) (\<lambda>out. out)"] sum.case simp_thms)
  qed
  from absent present show ?thesis by blast
qed


text \<open>
  The same \<^verbatim>\<open>KeyError\<close> switches off the check of \<^verbatim>\<open>save\<close>. On a file with the users
  \<^verbatim>\<open>{id: 1}\<close> and \<^verbatim>\<open>{name: B}\<close> the class gets the first id 1, and saving a new instance
  succeeds although a record with id 1 is stored: the collection then holds the id 1 twice.
\<close>

lemma save_stores_duplicate_id:
  "snapshot (User_state_on idless_user_file) = [(''User'', [[(''id'', PInt 1)], [(''name'', PStr ''B'')]])] \<and>
   fst (save example_dumps
          (fst (Document_call (User_class_on idless_user_file) (User_state_on idless_user_file)))
          (snd (Document_call (User_class_on idless_user_file) (User_state_on idless_user_file))))
     = Inr () \<and>
   snapshot (snd (save example_dumps
          (fst (Document_call (User_class_on idless_user_file) (User_state_on idless_user_file)))
          (snd (Document_call (User_class_on idless_user_file) (User_state_on idless_user_file)))))
     = [(''User'', [[(''id'', PInt 1)], [(''name'', PStr ''B'')], [(''id'', PInt 1)]])]"
  by code_simp

text \<open>
  Claim C6 says that \<^verbatim>\<open>get_raw\<close> returns exactly the records that carry an equal value
  for every criterion, in collection order. The body of the method sits in
  \<^verbatim>\<open>try ... except KeyError: return []\<close>, written for a collection that does not exist,
  and \<^verbatim>\<open>_instance[key]\<close> raises the same \<^verbatim>\<open>KeyError\<close> on a record without the key. With
  the users \<^verbatim>\<open>{id: 1, name: A}\<close> and \<^verbatim>\<open>{id: 2}\<close>, the query \<^verbatim>\<open>name="A"\<close> returns nothing
  although the first record matches; \<^verbatim>\<open>id=1, name="A"\<close> returns the first record, and the
  same criteria in the other order return nothing.
\<close>

theorem C6_matching_record_not_returned:
  "map_of (CACHE (User_state_on nameless_user_file)) (cls_name (User_class_on nameless_user_file))
     = Some [0, 1] \<and>
   heap (User_state_on nameless_user_file) 0 = [(''id'', PInt 1), (''name'', PStr ''A'')] \<and>
   heap (User_state_on nameless_user_file) 1 = [(''id'', PInt 2)] \<and>
   py_eq (PStr ''A'') (PStr ''A'') \<and>
   get_raw (User_class_on nameless_user_file) [(''name'', PStr ''A'')]
     (User_state_on nameless_user_file) = [] \<and>
   get_raw (User_class_on nameless_user_file) [(''id'', PInt 1), (''name'', PStr ''A'')]
     (User_state_on nameless_user_file) = [0] \<and>
   get_raw (User_class_on nameless_user_file) [(''name'', PStr ''A''), (''id'', PInt 1)]
     (User_state_on nameless_user_file) = []"
  by code_simp

subsection \<open>The generated id\<close>

text \<open>Without a primary key the loop collects the fields in order and finds no id field.
  \<^verbatim>\<open>_next_id\<close> on a collection whose ids are numbers: \<^verbatim>\<open>max\<close> returns one of them, the
  greatest.\<close>

lemma map_of_named:
  "map_of (map (\<lambda>(key, f). (key, g key f)) xs) k = map_option (g k) (map_of xs k)"
  by (induction xs) auto

lemma scan_attrs_no_primary_key:
  "\<forall>(k, f)\<in>set attrs. \<not> primary_key f \<Longrightarrow> scan_attrs attrs (acc, idf) = Inr (acc @ attrs, idf)"
  by (induction attrs arbitrary: acc) auto

lemma id_seq_error:
  "id_seq s refs = Inl e \<Longrightarrow> e = KeyError"
  by (induction refs arbitrary: e) (auto split: option.splits sum.splits)

lemma id_seq_missing:
  "r \<in> set refs \<Longrightarrow> map_of (heap s r) ''id'' = None \<Longrightarrow> id_seq s refs = Inl KeyError"
proof (induction refs)
  case Nil
  then show ?case by simp
next
  case (Cons a refs)
  show ?case
  proof (cases "map_of (heap s a) ''id''")
    case None
    then show ?thesis by simp
  next
    case (Some w)
    with Cons have "id_seq s refs = Inl KeyError" by auto
    with Some show ?thesis by simp
  qed
qed

lemma id_seq_present:
  "\<forall>r\<in>set refs. map_of (heap s r) ''id'' \<noteq> None \<Longrightarrow>
     id_seq s refs = Inr (map (\<lambda>r. dict_get (heap s r) ''id'') refs)"
  by (induction refs) (auto simp: dict_get_def split: option.splits sum.splits)

lemma max_loop_numbers:
  "num_of m = Some i \<Longrightarrow> \<forall>x\<in>set xs. num_of x \<noteq> None \<Longrightarrow>
     \<exists>v j. max_loop m xs = Inr v \<and> num_of v = Some j \<and> v \<in> set (m # xs) \<and>
           (\<forall>x\<in>set (m # xs). \<forall>n. num_of x = Some n \<longrightarrow> n \<le> j)"
proof (induction xs arbitrary: m i)
  case Nil
  then show ?case by simp
next
  case (Cons x xs)
  then obtain n where n: "num_of x = Some n" by auto
  let ?m' = "if i < n then x else m"
  have g: "py_gt x m = Inr (i < n)" using n Cons.prems(1) by (simp add: py_gt_def)
  have m': "num_of ?m' = Some (max i n)" using n Cons.prems(1) by (simp add: max_def)
  from Cons.prems have "\<forall>x\<in>set xs. num_of x \<noteq> None" by simp
  from Cons.IH [OF m' this] obtain v j where
    v: "max_loop ?m' xs = Inr v" "num_of v = Some j" "v \<in> set (?m' # xs)"
       "\<forall>x\<in>set (?m' # xs). \<forall>n. num_of x = Some n \<longrightarrow> n \<le> j" by blast
  have 1: "max_loop m (x # xs) = Inr v" using g v(1) by simp
  have 2: "v \<in> set (m # x # xs)" using v(3) by (auto split: if_splits)
  from v(4) m' have "max i n \<le> j" by simp
  then have 3: "\<forall>y\<in>set (m # x # xs). \<forall>k. num_of y = Some k \<longrightarrow> k \<le> j"
    using v(4) n Cons.prems(1) by auto
  from 1 v(2) 2 3 show ?case by blast
qed

lemma next_id_numbers:
  assumes nums: "\<forall>refs r v. map_of (CACHE t) cname = Some refs \<and> r \<in> set refs \<and>
                   map_of (heap t r) ''id'' = Some v \<longrightarrow> num_of v \<noteq> None"
  shows "\<exists>v. next_id t cname = Inr (PInt v) \<and>
           (case map_of (CACHE t) cname of
              None \<Rightarrow> v = 1
            | Some refs \<Rightarrow>
                if refs = [] \<or> (\<exists>r\<in>set refs. map_of (heap t r) ''id'' = None) then v = 1
                else (\<exists>r\<in>set refs. num_of (dict_get (heap t r) ''id'') = Some (v - 1)) \<and>
                     (\<forall>r\<in>set refs. \<forall>i. num_of (dict_get (heap t r) ''id'') = Some i \<longrightarrow> i \<le> v - 1))"
proof (cases "map_of (CACHE t) cname")
  case None
  then show ?thesis by (simp add: next_id_def)
next
  case (Some refs)
  show ?thesis
  proof (cases "refs = [] \<or> (\<exists>r\<in>set refs. map_of (heap t r) ''id'' = None)")
    case True
    then have "next_id t cname = Inr (PInt 1)"
    proof
      assume "refs = []"
      with Some show ?thesis by (simp add: next_id_def)
    next
      assume "\<exists>r\<in>set refs. map_of (heap t r) ''id'' = None"
      then obtain r where "r \<in> set refs" "map_of (heap t r) ''id'' = None" by blast
      from id_seq_missing [OF this] Some show ?thesis by (simp add: next_id_def)
    qed
    with Some True show ?thesis by simp
  next
    case False
    then obtain r0 rs where refs: "refs = r0 # rs" by (cases refs) auto
    from False have pres: "\<forall>r\<in>set refs. map_of (heap t r) ''id'' \<noteq> None" by simp
    let ?ids = "map (\<lambda>r. dict_get (heap t r) ''id'') refs"
    have seq: "id_seq t refs = Inr ?ids" by (rule id_seq_present [OF pres])
    have num: "\<forall>r\<in>set refs. num_of (dict_get (heap t r) ''id'') \<noteq> None"
    proof
      fix r assume r: "r \<in> set refs"
      with pres obtain v where v: "map_of (heap t r) ''id'' = Some v" by auto
      with nums Some r have "num_of v \<noteq> None" by blast
      with v show "num_of (dict_get (heap t r) ''id'') \<noteq> None" by (simp add: dict_get_def)
    qed
    then obtain i where i: "num_of (dict_get (heap t r0) ''id'') = Some i"
      using refs by auto
    have rest: "\<forall>x\<in>set (map (\<lambda>r. dict_get (heap t r) ''id'') rs). num_of x \<noteq> None"
      using num refs by auto
    from max_loop_numbers [OF i rest] obtain v j where
      v: "max_loop (dict_get (heap t r0) ''id'') (map (\<lambda>r. dict_get (heap t r) ''id'') rs) = Inr v"
         "num_of v = Some j" "v \<in> set ?ids"
         "\<forall>x\<in>set ?ids. \<forall>n. num_of x = Some n \<longrightarrow> n \<le> j"
      unfolding refs by auto
    have mx: "py_max ?ids = Inr v" using v(1) refs by (simp add: py_max_def)
    have ad: "py_add v (PInt 1) = Inr (PInt (j + 1))" using v(2) by (simp add: py_add_def)
    have res: "next_id t cname = Inr (PInt (j + 1))"
      using Some seq mx ad refs by (simp add: next_id_def)
    from v(3) v(2) have ex: "\<exists>r\<in>set refs. num_of (dict_get (heap t r) ''id'') = Some j" by auto
    from v(4) have le: "\<forall>r\<in>set refs. \<forall>i. num_of (dict_get (heap t r) ''id'') = Some i \<longrightarrow> i \<le> j"
      by auto
    from False have cond: "\<not> (refs = [] \<or> (\<exists>r\<in>set refs. map_of (heap t r) ''id'' = None))" .
    show ?thesis
      apply (rule exI [of _ "j + 1"])
      using res ex le by (simp add: Some cond del: de_Morgan_disj)
  qed
qed


text \<open>
  Claim C4 says that every class without a primary key gets a generated field \<^verbatim>\<open>id\<close>
  whose first value is one more than the greatest id in the collection. \<^verbatim>\<open>_next_id\<close>
  catches \<^verbatim>\<open>KeyError\<close> only, and ids need not be numbers: a field \<^verbatim>\<open>id\<close> can be assigned
  a string and saved. On a file with the user \<^verbatim>\<open>{"id": "x"}\<close>, \<^verbatim>\<open>max\<close> returns
  \<^verbatim>\<open>"x"\<close>, \<^verbatim>\<open>"x" + 1\<close> raises \<^verbatim>\<open>TypeError\<close>, and the class is not made.
\<close>

theorem C4_text_id_raises:
  "snapshot (started_on text_id_file) = [(''User'', [[(''id'', PStr ''x'')]])] \<and>
   primary_key (Field_init None False PNone) = False \<and>
   DocumentMeta_new ''User'' [(''name'', Field_init None False PNone)] (started_on text_id_file)
     = Inl TypeError"
proof -
  have s: "snapshot (started_on text_id_file) = [(''User'', [[(''id'', PStr ''x'')]])]"
    by code_simp
  have p: "primary_key (Field_init None False PNone) = False"
    by code_simp
  have l: "isl (DocumentMeta_new ''User'' [(''name'', Field_init None False PNone)]
                  (started_on text_id_file))"
    by code_simp
  have e: "projl (DocumentMeta_new ''User'' [(''name'', Field_init None False PNone)]
                    (started_on text_id_file)) = TypeError"
    by code_simp
  have "DocumentMeta_new ''User'' [(''name'', Field_init None False PNone)] (started_on text_id_file)
          = Inl TypeError"
    using l e by (cases "DocumentMeta_new ''User'' [(''name'', Field_init None False PNone)]
                           (started_on text_id_file)") simp_all
  with s p show ?thesis by simp
qed

text \<open>
  Claim C4 as amended: provided every id in the collection is an integer (an \<^verbatim>\<open>int\<close>,
  or a \<^verbatim>\<open>bool\<close>, which Python counts as one). Then the class is made; its id field is
  \<^verbatim>\<open>id\<close>; the generated field is marked primary, is the first entry of the fields list,
  in front of the entries of the declared fields in their order, and is the attribute
  \<^verbatim>\<open>id\<close> of the class; the store is as it was; and the class dictionary holds just the id,
  which is 1 when the collection is absent or empty or some record has no id, and otherwise
  one more than the greatest id of the collection. The second hypothesis is the invariant of
  the object store: the records of the collection are objects already made.
\<close>

theorem C4_generated_id:
  assumes nopk: "\<forall>(k, f)\<in>set attrs. \<not> primary_key f"
      and alloc: "\<forall>refs r. map_of (CACHE s) cname = Some refs \<and> r \<in> set refs \<longrightarrow> r < next_ref s"
      and nums: "\<forall>refs r v. map_of (CACHE s) cname = Some refs \<and> r \<in> set refs \<and>
                   map_of (heap s r) ''id'' = Some v \<longrightarrow> num_of v \<noteq> None"
  shows "\<exists>cls s' v.
           DocumentMeta_new cname attrs s = Inr (cls, s') \<and>
           meta_id_field cls = ''id'' \<and>
           hd (meta_fields cls) = (''id'', Field_init (Some ''id'') True PNone) \<and>
           map fst (meta_fields cls) = ''id'' # map fst attrs \<and>
           map_of (cls_attrs cls) ''id'' = Some (Field_init (Some ''id'') True PNone) \<and>
           primary_key (Field_init (Some ''id'') True PNone) \<and>
           CACHE s' = CACHE s \<and>
           heap s' (cls_data cls) = [(''id'', PInt v)] \<and>
           (case map_of (CACHE s) cname of
              None \<Rightarrow> v = 1
            | Some refs \<Rightarrow>
                if refs = [] \<or> (\<exists>r\<in>set refs. map_of (heap s r) ''id'' = None) then v = 1
                else (\<exists>r\<in>set refs. num_of (dict_get (heap s r) ''id'') = Some (v - 1)) \<and>
                     (\<forall>r\<in>set refs. \<forall>i. num_of (dict_get (heap s r) ''id'') = Some i \<longrightarrow> i \<le> v - 1))"
proof -
  let ?s1 = "s\<lparr>heap := (heap s)(next_ref s := []), next_ref := Suc (next_ref s)\<rparr>"
  let ?gen = "Field_init (Some ''id'') True PNone"
  have same: "\<And>refs r. map_of (CACHE s) cname = Some refs \<Longrightarrow> r \<in> set refs \<Longrightarrow> heap ?s1 r = heap s r"
    using alloc by fastforce
  have nums1: "\<forall>refs r v. map_of (CACHE ?s1) cname = Some refs \<and> r \<in> set refs \<and>
                 map_of (heap ?s1 r) ''id'' = Some v \<longrightarrow> num_of v \<noteq> None"
  proof (intro allI impI)
    fix refs r v
    assume a: "map_of (CACHE ?s1) cname = Some refs \<and> r \<in> set refs \<and> map_of (heap ?s1 r) ''id'' = Some v"
    then have c: "map_of (CACHE s) cname = Some refs" and r: "r \<in> set refs" by simp_all
    from same [OF c r] a have "map_of (heap s r) ''id'' = Some v" by simp
    with nums c r show "num_of v \<noteq> None" by blast
  qed
  from next_id_numbers [OF nums1] obtain v where
    nid: "next_id ?s1 cname = Inr (PInt v)" and
    val1: "(case map_of (CACHE ?s1) cname of
              None \<Rightarrow> v = 1
            | Some refs \<Rightarrow>
                if refs = [] \<or> (\<exists>r\<in>set refs. map_of (heap ?s1 r) ''id'' = None) then v = 1
                else (\<exists>r\<in>set refs. num_of (dict_get (heap ?s1 r) ''id'') = Some (v - 1)) \<and>
                     (\<forall>r\<in>set refs. \<forall>i. num_of (dict_get (heap ?s1 r) ''id'') = Some i \<longrightarrow> i \<le> v - 1))"
    by blast
  have val: "(case map_of (CACHE s) cname of
              None \<Rightarrow> v = 1
            | Some refs \<Rightarrow>
                if refs = [] \<or> (\<exists>r\<in>set refs. map_of (heap s r) ''id'' = None) then v = 1
                else (\<exists>r\<in>set refs. num_of (dict_get (heap s r) ''id'') = Some (v - 1)) \<and>
                     (\<forall>r\<in>set refs. \<forall>i. num_of (dict_get (heap s r) ''id'') = Some i \<longrightarrow> i \<le> v - 1))"
  proof (cases "map_of (CACHE s) cname")
    case None
    with val1 show ?thesis by simp
  next
    case (Some refs)
    have h: "\<forall>r\<in>set refs. heap ?s1 r = heap s r" using same [OF Some] by blast
    have e1: "(\<exists>r\<in>set refs. map_of (heap ?s1 r) ''id'' = None) = (\<exists>r\<in>set refs. map_of (heap s r) ''id'' = None)"
      using h by (intro bex_cong) simp_all
    have e2: "\<And>j. (\<exists>r\<in>set refs. num_of (dict_get (heap ?s1 r) ''id'') = Some j)
               = (\<exists>r\<in>set refs. num_of (dict_get (heap s r) ''id'') = Some j)"
      using h by (intro bex_cong) simp_all
    have e3: "\<And>j. (\<forall>r\<in>set refs. \<forall>i. num_of (dict_get (heap ?s1 r) ''id'') = Some i \<longrightarrow> i \<le> j)
               = (\<forall>r\<in>set refs. \<forall>i. num_of (dict_get (heap s r) ''id'') = Some i \<longrightarrow> i \<le> j)"
      using h by (intro ball_cong) simp_all
    from val1 Some have "if refs = [] \<or> (\<exists>r\<in>set refs. map_of (heap ?s1 r) ''id'' = None) then v = 1
                else (\<exists>r\<in>set refs. num_of (dict_get (heap ?s1 r) ''id'') = Some (v - 1)) \<and>
                     (\<forall>r\<in>set refs. \<forall>i. num_of (dict_get (heap ?s1 r) ''id'') = Some i \<longrightarrow> i \<le> v - 1)"
      by simp
    then show ?thesis unfolding e1 e2 e3 using Some by simp
  qed
  let ?cls0 = "\<lparr>cls_name = cname, meta_fields = (''id'', ?gen) # attrs, meta_id_field = ''id'',
                cls_data = next_ref s, cls_attrs = AList.update ''id'' ?gen attrs\<rparr>"
  let ?s' = "?s1\<lparr>heap := (heap ?s1)(next_ref s := dict_setitem (heap ?s1 (next_ref s)) ''id'' (PInt v))\<rparr>"
  have new: "DocumentMeta_new cname attrs s = Inr (type_new ?cls0, ?s')"
    using scan_attrs_no_primary_key [OF nopk, of "[]" None] nid
    by (simp add: DocumentMeta_new_def new_dict_def Field_init_def Let_def)
  have named: "Field_set_name ?gen ''id'' = ?gen"
    by (simp add: Field_set_name_def Field_init_def)
  have attr: "map_of (cls_attrs (type_new ?cls0)) ''id'' = Some ?gen"
    using named by (simp add: type_new_def map_of_named update_conv')
  have first: "hd (meta_fields (type_new ?cls0)) = (''id'', ?gen)"
    using named by (simp add: type_new_def update_conv')
  have keys: "map fst (meta_fields (type_new ?cls0)) = ''id'' # map fst attrs"
    by (simp add: type_new_def case_prod_unfold comp_def)
  have rest: "meta_id_field (type_new ?cls0) = ''id'' \<and>
        primary_key ?gen \<and>
        CACHE ?s' = CACHE s \<and>
        heap ?s' (cls_data (type_new ?cls0)) = [(''id'', PInt v)]"
    by (simp add: type_new_def dict_setitem_def Field_init_def)
  show ?thesis
    apply (rule exI [of _ "type_new ?cls0"])
    apply (rule exI [of _ ?s'])
    apply (rule exI [of _ v])
    using new val attr first keys rest by (simp only: simp_thms)
qed

theorem C4_generated_id_witness:
  "primary_key (Field_init None False PNone) = False \<and>
   map_of (CACHE (started_on one_user_file)) ''User'' = Some [0] \<and>
   next_ref (started_on one_user_file) = 1 \<and>
   heap (started_on one_user_file) 0 = [(''id'', PInt 1), (''name'', PStr ''X'')] \<and>
   meta_id_field (User_class_on one_user_file) = ''id'' \<and>
   hd (meta_fields (User_class_on one_user_file)) = (''id'', Field_init (Some ''id'') True PNone) \<and>
   map fst (meta_fields (User_class_on one_user_file)) = [''id'', ''name''] \<and>
   heap (User_state_on one_user_file) (cls_data (User_class_on one_user_file)) = [(''id'', PInt 2)]"
proof -
  let ?st = "started_on one_user_file"
  let ?attrs = "[(''name'', Field_init None False PNone)]"
  have p: "primary_key (Field_init None False PNone) = False" by code_simp
  have c: "map_of (CACHE ?st) ''User'' = Some [0]" by code_simp
  have n: "next_ref ?st = 1" by code_simp
  have h: "heap ?st 0 = [(''id'', PInt 1), (''name'', PStr ''X'')]" by code_simp
  have h1: "\<forall>(k, f)\<in>set ?attrs. \<not> primary_key f" using p by simp
  have h2: "\<forall>refs r. map_of (CACHE ?st) ''User'' = Some refs \<and> r \<in> set refs \<longrightarrow> r < next_ref ?st"
    using c n by auto
  have h3: "\<forall>refs r v. map_of (CACHE ?st) ''User'' = Some refs \<and> r \<in> set refs \<and>
              map_of (heap ?st r) ''id'' = Some v \<longrightarrow> num_of v \<noteq> None"
    using c h by auto
  from C4_generated_id [OF h1 h2 h3] obtain cls s' v where
    r: "DocumentMeta_new ''User'' ?attrs ?st = Inr (cls, s')"
       "meta_id_field cls = ''id''"
       "hd (meta_fields cls) = (''id'', Field_init (Some ''id'') True PNone)"
       "map fst (meta_fields cls) = ''id'' # map fst ?attrs"
       "map_of (cls_attrs cls) ''id'' = Some (Field_init (Some ''id'') True PNone)"
       "primary_key (Field_init (Some ''id'') True PNone)"
       "CACHE s' = CACHE ?st"
       "heap s' (cls_data cls) = [(''id'', PInt v)]"
       "(case map_of (CACHE ?st) ''User'' of
              None \<Rightarrow> v = 1
            | Some refs \<Rightarrow>
                if refs = [] \<or> (\<exists>r\<in>set refs. map_of (heap ?st r) ''id'' = None) then v = 1
                else (\<exists>r\<in>set refs. num_of (dict_get (heap ?st r) ''id'') = Some (v - 1)) \<and>
                     (\<forall>r\<in>set refs. \<forall>i. num_of (dict_get (heap ?st r) ''id'') = Some i \<longrightarrow> i \<le> v - 1))"
    by (elim exE conjE) (rule that; assumption)
  from r(9) have v: "v = 2" by (simp add: c h dict_get_def)
  from r(1) have cl: "User_class_on one_user_file = cls" and st: "User_state_on one_user_file = s'"
    by (simp_all add: User_class_on_def User_state_on_def)
  show ?thesis
    using p c n h r(2) r(3) r(4) r(8) v unfolding cl st by simp
qed

end
